theory Spec2Isabelle
  imports Main "HOL-Library.Word"
begin

section \<open>Go values\<close>

text \<open>
  The program is \<^verbatim>\<open>main.go\<close> of websocket-proxy-sniffer: a connection wrapper
  (\<^verbatim>\<open>TeeConn\<close>) that copies what is read and written to two sinks, a response-writer
  wrapper (\<^verbatim>\<open>CallbackHijacker\<close>) that installs it when a handler hijacks the
  connection, and a handler wrapper (\<^verbatim>\<open>Sniffer\<close>).

  A Go \<^verbatim>\<open>error\<close> is an \<open>error option\<close>: \<open>None\<close> is \<^verbatim>\<open>nil\<close>. The named
  constructors are the error values of package \<^verbatim>\<open>io\<close> that the code can produce;
  \<open>Err\<close> stands for any other error, by its message.
\<close>

type_synonym byte = "8 word"

datatype error = EOF | ErrShortWrite | ErrClosedPipe | Err string

type_synonym Addr = string

type_synonym Time = int

section \<open>Package io: Reader, Writer, TeeReader, MultiWriter\<close>

text \<open>
  An interface value is the closure of its methods over the state \<open>'s\<close> of
  everything they can touch; a method takes the state and returns its results with the
  new state.

  \<^verbatim>\<open>Write(p []byte) (n int, err error)\<close> takes the buffer and returns \<open>(n, err)\<close>.
  \<^verbatim>\<open>Read(p []byte) (n int, err error)\<close> takes \<^verbatim>\<open>len(p)\<close> and returns the bytes it
  stored in \<^verbatim>\<open>p[:n]\<close>, with \<open>err\<close>: \<open>n\<close> is the length of that list.
\<close>

type_synonym 's Writer = "byte list \<Rightarrow> 's \<Rightarrow> (nat \<times> error option) \<times> 's"

type_synonym 's Reader = "nat \<Rightarrow> 's \<Rightarrow> (byte list \<times> error option) \<times> 's"

text \<open>
  \<^verbatim>\<open>io.TeeReader(r, w)\<close>, from the Go standard library (\<^verbatim>\<open>io/io.go\<close>):
  \<^verbatim>\<open>
  func (t *teeReader) Read(p []byte) (n int, err error) {
      n, err = t.r.Read(p)
      if n > 0 {
          if n, err := t.w.Write(p[:n]); err != nil {
              return n, err
          }
      }
      return
  }
  \<close>
  When the write to \<open>w\<close> fails, the count and the error of that write are what
  \<^verbatim>\<open>Read\<close> returns: the caller is told of \<^verbatim>\<open>p[:n]\<close> for the writer's \<open>n\<close>.
  A result is kept as the bytes the caller is told of, so this branch is exact for a
  count within the buffer written (\<^verbatim>\<open>0 <= n <= len(p)\<close>, the contract of
  \<^verbatim>\<open>io.Writer\<close>): there the list has the writer's count as its length. Whatever is
  proved of this branch below is proved for such a count only.
\<close>

definition TeeReader :: "'s Reader \<Rightarrow> 's Writer \<Rightarrow> 's Reader" where
  "TeeReader r w = (\<lambda>p s.
     case r p s of ((d, err), s1) \<Rightarrow>
       if length d > 0 then
         (case w d s1 of ((n', err'), s2) \<Rightarrow>
            if err' \<noteq> None then ((take n' d, err'), s2) else ((d, err), s2))
       else ((d, err), s1))"

text \<open>
  \<^verbatim>\<open>io.MultiWriter(writers...)\<close>, from the Go standard library (\<^verbatim>\<open>io/multi.go\<close>):
  \<^verbatim>\<open>
  func (t *multiWriter) Write(p []byte) (n int, err error) {
      for _, w := range t.writers {
          n, err = w.Write(p)
          if err != nil {
              return
          }
          if n != len(p) {
              err = ErrShortWrite
              return
          }
      }
      return len(p), nil
  }
  \<close>
\<close>

fun multiWriter_Write :: "'s Writer list \<Rightarrow> 's Writer" where
  "multiWriter_Write [] p s = ((length p, None), s)"
| "multiWriter_Write (w # ws) p s =
     (case w p s of ((n, err), s1) \<Rightarrow>
        if err \<noteq> None then ((n, err), s1)
        else if n \<noteq> length p then ((n, Some ErrShortWrite), s1)
        else multiWriter_Write ws p s1)"

definition MultiWriter :: "'s Writer list \<Rightarrow> 's Writer" where
  "MultiWriter writers = multiWriter_Write writers"

section \<open>Package net: Conn\<close>

text \<open>The interface \<^verbatim>\<open>net.Conn\<close>: the eight methods of a connection.\<close>

record 's Conn =
  Read :: "'s Reader"
  Write :: "'s Writer"
  Close :: "'s \<Rightarrow> error option \<times> 's"
  LocalAddr :: "'s \<Rightarrow> Addr"
  RemoteAddr :: "'s \<Rightarrow> Addr"
  SetDeadline :: "Time \<Rightarrow> 's \<Rightarrow> error option \<times> 's"
  SetReadDeadline :: "Time \<Rightarrow> 's \<Rightarrow> error option \<times> 's"
  SetWriteDeadline :: "Time \<Rightarrow> 's \<Rightarrow> error option \<times> 's"

section \<open>TeeConn\<close>

text \<open>
  \<^verbatim>\<open>
  type teeConn struct {
      net.Conn
      reader io.Reader
      writer io.Writer
  }
  func (c *teeConn) Read(p []byte) (n int, err error)  { return c.reader.Read(p) }
  func (c *teeConn) Write(p []byte) (n int, err error) { return c.writer.Write(p) }
  \<close>
  The struct embeds \<^verbatim>\<open>net.Conn\<close>, so the six other methods of the interface are
  promoted from the embedded connection: \<open>teeConn_Conn\<close> is the method set of
  \<^verbatim>\<open>*teeConn\<close> as a \<^verbatim>\<open>net.Conn\<close>.
\<close>

record 's teeConn =
  Conn :: "'s Conn"
  reader :: "'s Reader"
  writer :: "'s Writer"

definition teeConn_Read :: "'s teeConn \<Rightarrow> 's Reader" where
  "teeConn_Read c p = reader c p"

definition teeConn_Write :: "'s teeConn \<Rightarrow> 's Writer" where
  "teeConn_Write c p = writer c p"

definition teeConn_Conn :: "'s teeConn \<Rightarrow> 's Conn" where
  "teeConn_Conn c =
     \<lparr>Read = teeConn_Read c,
      Write = teeConn_Write c,
      Close = Close (Conn c),
      LocalAddr = LocalAddr (Conn c),
      RemoteAddr = RemoteAddr (Conn c),
      SetDeadline = SetDeadline (Conn c),
      SetReadDeadline = SetReadDeadline (Conn c),
      SetWriteDeadline = SetWriteDeadline (Conn c)\<rparr>"

text \<open>
  \<^verbatim>\<open>
  func TeeConn(conn net.Conn, in, out io.Writer) net.Conn {
      return &teeConn{
          Conn:   conn,
          reader: io.TeeReader(conn, in),
          writer: io.MultiWriter(conn, out),
      }
  }
  \<close>
\<close>

definition TeeConn :: "'s Conn \<Rightarrow> 's Writer \<Rightarrow> 's Writer \<Rightarrow> 's Conn" where
  "TeeConn conn inw outw =
     teeConn_Conn
       \<lparr>Conn = conn,
        reader = TeeReader (Read conn) inw,
        writer = MultiWriter [Write conn, outw]\<rparr>"

section \<open>Package net/http: Request\<close>

text \<open>
  A \<^verbatim>\<open>*http.Request\<close>, by the fields that \<^verbatim>\<open>main.go\<close> touches. The wrappers only
  pass it on.
\<close>

record Request =
  req_Method :: string
  req_Host :: string
  req_RemoteAddr :: string

section \<open>Package io: Pipe\<close>

text \<open>
  \<^verbatim>\<open>io.Pipe()\<close> creates a synchronous in-memory pipe and returns its two ends. The
  standard library documents them so: a \<^verbatim>\<open>Write\<close> blocks until one or more readers
  have consumed all the data or the read end is closed, and then returns the error the
  read end was closed with, or \<^verbatim>\<open>ErrClosedPipe\<close>; a \<^verbatim>\<open>Read\<close> blocks until a
  writer arrives or the write end is closed, and then returns the error the write end was
  closed with, or \<^verbatim>\<open>EOF\<close>; there is no internal buffering.

  A pipe is kept as the bytes its read side has taken so far and the two close errors
  (\<^verbatim>\<open>rerr\<close>, \<^verbatim>\<open>werr\<close> of \<^verbatim>\<open>io/pipe.go\<close>); the pipe is done once either is set. The
  pipes live in the state, in the order of their allocation; an end of a pipe is the
  pointer to it, its index.

  The state is run by one task at a time. \<open>PipeWriter_Write\<close> is a \<^verbatim>\<open>Write\<close> at
  its return. On a pipe that is not done a \<^verbatim>\<open>Write\<close> returns only when a reader
  has taken the whole buffer, so at its return the buffer is with the read side; the wait
  for the reader is not part of the state, and a \<^verbatim>\<open>Write\<close> that no reader ever takes
  has no return and is no step of a run. A \<^verbatim>\<open>Write\<close> changes neither close error.
  A \<^verbatim>\<open>Read\<close> issued while no \<^verbatim>\<open>Write\<close> is in progress finds no writer: it
  returns the close error when the pipe is done and blocks otherwise.
\<close>

record pipe =
  taken :: "byte list"
  rerr :: "error option"
  werr :: "error option"

datatype PipeReader = PipeReader nat

datatype PipeWriter = PipeWriter nat

text \<open>
  The state of a serving process: \<open>env\<close> is everything outside this package (the
  sockets, the HTTP server, the proxied handler, what the observer keeps), \<open>pipes\<close>
  the pipes allocated so far, and \<open>observed\<close> the record that an observer keeps of the
  calls it has received (see \<open>observer\<close> below).
\<close>

record 'e world =
  env :: 'e
  pipes :: "pipe list"
  observed :: "(Request \<times> PipeReader \<times> PipeReader) list"

definition new_pipe :: pipe where
  "new_pipe = \<lparr>taken = [], rerr = None, werr = None\<rparr>"

definition io_Pipe :: "'e world \<Rightarrow> (PipeReader \<times> PipeWriter) \<times> 'e world" where
  "io_Pipe s =
     ((PipeReader (length (pipes s)), PipeWriter (length (pipes s))),
      s\<lparr>pipes := pipes s @ [new_pipe]\<rparr>)"

definition pipe_done :: "pipe \<Rightarrow> bool" where
  "pipe_done p \<longleftrightarrow> rerr p \<noteq> None \<or> werr p \<noteq> None"

text \<open>
  \<^verbatim>\<open>
  func (p *pipe) readCloseError() error {
      rerr := p.rerr.Load()
      if werr := p.werr.Load(); rerr == nil && werr != nil {
          return werr
      }
      return ErrClosedPipe
  }
  func (p *pipe) writeCloseError() error {
      werr := p.werr.Load()
      if rerr := p.rerr.Load(); werr == nil && rerr != nil {
          return rerr
      }
      return ErrClosedPipe
  }
  \<close>
\<close>

definition readCloseError :: "pipe \<Rightarrow> error" where
  "readCloseError p =
     (case werr p of Some e \<Rightarrow> if rerr p = None then e else ErrClosedPipe
      | None \<Rightarrow> ErrClosedPipe)"

definition writeCloseError :: "pipe \<Rightarrow> error" where
  "writeCloseError p =
     (case rerr p of Some e \<Rightarrow> if werr p = None then e else ErrClosedPipe
      | None \<Rightarrow> ErrClosedPipe)"

text \<open>
  A pointer to a pipe that was never allocated does not arise (the only pointers are
  those \<open>io_Pipe\<close> returns); the operations answer it like a closed pipe.
\<close>

fun PipeWriter_Write :: "PipeWriter \<Rightarrow> 'e world Writer" where
  "PipeWriter_Write (PipeWriter i) b s =
     (if i < length (pipes s) then
        (if pipe_done (pipes s ! i) then ((0, Some (writeCloseError (pipes s ! i))), s)
         else ((length b, None),
               s\<lparr>pipes := (pipes s)[i := (pipes s ! i)\<lparr>taken := taken (pipes s ! i) @ b\<rparr>]\<rparr>))
      else ((0, Some ErrClosedPipe), s))"

datatype 'a outcome = Returns 'a | Blocks

fun PipeReader_Read :: "PipeReader \<Rightarrow> nat \<Rightarrow> 'e world \<Rightarrow> (byte list \<times> error option) outcome" where
  "PipeReader_Read (PipeReader i) n s =
     (if i < length (pipes s) then
        (if pipe_done (pipes s ! i) then Returns ([], Some (readCloseError (pipes s ! i)))
         else Blocks)
      else Returns ([], Some ErrClosedPipe))"

text \<open>
  \<^verbatim>\<open>(*PipeWriter).Close\<close> is \<^verbatim>\<open>CloseWithError(nil)\<close>: it stores \<^verbatim>\<open>EOF\<close> as the
  write side's error unless one is stored already, and marks the pipe done. It always
  returns nil. Nothing in \<^verbatim>\<open>main.go\<close> calls it.
\<close>

fun PipeWriter_Close :: "PipeWriter \<Rightarrow> 'e world \<Rightarrow> error option \<times> 'e world" where
  "PipeWriter_Close (PipeWriter i) s =
     (if i < length (pipes s) then
        (None, s\<lparr>pipes := (pipes s)[i := (pipes s ! i)
                   \<lparr>werr := (case werr (pipes s ! i) of None \<Rightarrow> Some EOF | Some e \<Rightarrow> Some e)\<rparr>]\<rparr>)
      else (None, s))"

text \<open>Whether the outcome of a read ends the stream: it returns with an error.\<close>

fun ends_stream :: "(byte list \<times> error option) outcome \<Rightarrow> bool" where
  "ends_stream (Returns (d, Some e)) = True"
| "ends_stream (Returns (d, None)) = False"
| "ends_stream Blocks = False"

section \<open>Package net/http: ResponseWriter, Hijacker, Handler\<close>

text \<open>
  \<^verbatim>\<open>Hijack() (net.Conn, *bufio.ReadWriter, error)\<close>. The result \<open>(conn, buf, nil)\<close>
  is \<open>Hijacked conn buf\<close>: with a nil error \<^verbatim>\<open>http.Hijacker\<close> hands over the
  connection. A result with an error is \<open>HijackFailed conn buf err\<close>, where the
  connection and the buffer may be nil. A \<^verbatim>\<open>*bufio.ReadWriter\<close> is a pointer.
\<close>

datatype bufio_ReadWriter = ReadWriter nat

datatype 's hijacked =
    Hijacked "'s Conn" "bufio_ReadWriter option"
  | HijackFailed "'s Conn option" "bufio_ReadWriter option" error

type_synonym 's Hijacker = "'s \<Rightarrow> 's hijacked \<times> 's"

text \<open>
  An \<^verbatim>\<open>http.ResponseWriter\<close> value: its three methods, and the \<^verbatim>\<open>Hijack\<close> method
  of its dynamic type when that type has one. \<open>rw_Hijacker w\<close> is the result of the
  type assertion \<^verbatim>\<open>w.(http.Hijacker)\<close>: \<open>None\<close> when it fails.
\<close>

type_synonym Header = "(string \<times> string list) list"

record 's ResponseWriter =
  rw_Header :: "'s \<Rightarrow> Header"
  rw_Write :: "'s Writer"
  rw_WriteHeader :: "int \<Rightarrow> 's \<Rightarrow> 's"
  rw_Hijacker :: "'s Hijacker option"

type_synonym 's Handler = "'s ResponseWriter \<Rightarrow> Request \<Rightarrow> 's \<Rightarrow> 's"

section \<open>CallbackHijacker\<close>

text \<open>
  \<^verbatim>\<open>type OnHijacked func(r *http.Request, in, out io.Reader)\<close>. The two readers that
  the code passes are read ends of pipes.
\<close>

type_synonym 'e OnHijacked = "Request \<Rightarrow> PipeReader \<Rightarrow> PipeReader \<Rightarrow> 'e world \<Rightarrow> 'e world"

text \<open>
  \<^verbatim>\<open>
  type callbackHijacker struct {
      http.ResponseWriter
      hijacker http.Hijacker
      request  *http.Request
      callback OnHijacked
  }
  func (h *callbackHijacker) Hijack() (net.Conn, *bufio.ReadWriter, error) {
      conn, buf, err := h.hijacker.Hijack()
      if err != nil {
          return conn, buf, err
      }
      rIn, wIn := io.Pipe()
      rOut, wOut := io.Pipe()
      h.callback(h.request, rIn, rOut)
      return TeeConn(conn, wIn, wOut), buf, nil
  }
  \<close>
\<close>

record 'e callbackHijacker =
  ResponseWriter :: "'e world ResponseWriter"
  hijacker :: "'e world Hijacker"
  request :: Request
  callback :: "'e OnHijacked"

definition callbackHijacker_Hijack :: "'e callbackHijacker \<Rightarrow> 'e world Hijacker" where
  "callbackHijacker_Hijack h s =
     (case hijacker h s of
        (HijackFailed conn buf err, s1) \<Rightarrow> (HijackFailed conn buf err, s1)
      | (Hijacked conn buf, s1) \<Rightarrow>
          (case io_Pipe s1 of ((rIn, wIn), s2) \<Rightarrow>
             (case io_Pipe s2 of ((rOut, wOut), s3) \<Rightarrow>
                (Hijacked (TeeConn conn (PipeWriter_Write wIn) (PipeWriter_Write wOut)) buf,
                 callback h (request h) rIn rOut s3))))"

text \<open>
  The struct embeds the \<^verbatim>\<open>http.ResponseWriter\<close>, whose three methods are promoted,
  and has \<^verbatim>\<open>Hijack\<close> of its own: its method set as a response writer.
\<close>

definition callbackHijacker_ResponseWriter :: "'e callbackHijacker \<Rightarrow> 'e world ResponseWriter" where
  "callbackHijacker_ResponseWriter h =
     \<lparr>rw_Header = rw_Header (ResponseWriter h),
      rw_Write = rw_Write (ResponseWriter h),
      rw_WriteHeader = rw_WriteHeader (ResponseWriter h),
      rw_Hijacker = Some (callbackHijacker_Hijack h)\<rparr>"

text \<open>
  \<^verbatim>\<open>
  func CallbackHijacker(w http.ResponseWriter, r *http.Request,
      cb OnHijacked) http.ResponseWriter {
      if h, ok := w.(http.Hijacker); ok {
          w = &callbackHijacker{
              ResponseWriter: w,
              hijacker:       h,
              request:        r,
              callback:       cb,
          }
      }
      return w
  }
  \<close>
\<close>

definition CallbackHijacker ::
  "'e world ResponseWriter \<Rightarrow> Request \<Rightarrow> 'e OnHijacked \<Rightarrow> 'e world ResponseWriter" where
  "CallbackHijacker w r cb =
     (case rw_Hijacker w of
        Some h \<Rightarrow>
          callbackHijacker_ResponseWriter
            \<lparr>ResponseWriter = w, hijacker = h, request = r, callback = cb\<rparr>
      | None \<Rightarrow> w)"

section \<open>Sniffer\<close>

text \<open>
  \<^verbatim>\<open>
  type sniffer struct {
      handler  http.Handler
      callback OnHijacked
  }
  func Sniffer(h http.Handler, callback OnHijacked) http.Handler {
      return &sniffer{handler: h, callback: callback}
  }
  func (s *sniffer) ServeHTTP(w http.ResponseWriter, r *http.Request) {
      w = CallbackHijacker(w, r, s.callback)
      s.handler.ServeHTTP(w, r)
  }
  \<close>
  The field \<^verbatim>\<open>callback\<close> of this struct is \<open>sniffer_callback\<close>.
\<close>

record 'e sniffer =
  handler :: "'e world Handler"
  sniffer_callback :: "'e OnHijacked"

definition sniffer_ServeHTTP :: "'e sniffer \<Rightarrow> 'e world Handler" where
  "sniffer_ServeHTTP sn w r = handler sn (CallbackHijacker w r (sniffer_callback sn)) r"

definition Sniffer :: "'e world Handler \<Rightarrow> 'e OnHijacked \<Rightarrow> 'e world Handler" where
  "Sniffer h cb = sniffer_ServeHTTP \<lparr>handler = h, sniffer_callback = cb\<rparr>"

section \<open>Observing the socket and the sinks\<close>

text \<open>
  To say which bytes crossed the real socket and which bytes a sink received, the real
  connection and the two sinks are run inside a recording state: beside the state
  \<open>base\<close> that they act on, it keeps the bytes that the connection's reads have
  returned (\<open>conn_rx\<close>), the bytes that its writes have accepted (\<open>conn_tx\<close>), and
  the bytes that each sink's writes have accepted (\<open>sink_in\<close>, \<open>sink_out\<close>). A write
  that returns \<open>n\<close> has accepted \<^verbatim>\<open>p[:n]\<close>. The connection and the sinks themselves
  are arbitrary: any behaviour on any state.
\<close>

record 'b probe =
  base :: 'b
  conn_rx :: "byte list"
  conn_tx :: "byte list"
  sink_in :: "byte list"
  sink_out :: "byte list"

definition probe_Conn :: "'b Conn \<Rightarrow> 'b probe Conn" where
  "probe_Conn c =
     \<lparr>Read = (\<lambda>p s. case Read c p (base s) of
                ((d, e), b') \<Rightarrow> ((d, e), s\<lparr>base := b', conn_rx := conn_rx s @ d\<rparr>)),
      Write = (\<lambda>p s. case Write c p (base s) of
                ((n, e), b') \<Rightarrow> ((n, e), s\<lparr>base := b', conn_tx := conn_tx s @ take n p\<rparr>)),
      Close = (\<lambda>s. case Close c (base s) of (e, b') \<Rightarrow> (e, s\<lparr>base := b'\<rparr>)),
      LocalAddr = (\<lambda>s. LocalAddr c (base s)),
      RemoteAddr = (\<lambda>s. RemoteAddr c (base s)),
      SetDeadline = (\<lambda>t s. case SetDeadline c t (base s) of (e, b') \<Rightarrow> (e, s\<lparr>base := b'\<rparr>)),
      SetReadDeadline =
        (\<lambda>t s. case SetReadDeadline c t (base s) of (e, b') \<Rightarrow> (e, s\<lparr>base := b'\<rparr>)),
      SetWriteDeadline =
        (\<lambda>t s. case SetWriteDeadline c t (base s) of (e, b') \<Rightarrow> (e, s\<lparr>base := b'\<rparr>))\<rparr>"

definition probe_in :: "'b Writer \<Rightarrow> 'b probe Writer" where
  "probe_in w = (\<lambda>p s. case w p (base s) of
     ((n, e), b') \<Rightarrow> ((n, e), s\<lparr>base := b', sink_in := sink_in s @ take n p\<rparr>))"

definition probe_out :: "'b Writer \<Rightarrow> 'b probe Writer" where
  "probe_out w = (\<lambda>p s. case w p (base s) of
     ((n, e), b') \<Rightarrow> ((n, e), s\<lparr>base := b', sink_out := sink_out s @ take n p\<rparr>))"

text \<open>A sequence of reads and writes performed through a connection.\<close>

datatype io_op = OpRead nat | OpWrite "byte list"

fun step :: "'s Conn \<Rightarrow> io_op \<Rightarrow> 's \<Rightarrow> 's" where
  "step c (OpRead n) s = snd (Read c n s)"
| "step c (OpWrite p) s = snd (Write c p s)"

fun run :: "'s Conn \<Rightarrow> io_op list \<Rightarrow> 's \<Rightarrow> 's" where
  "run c [] s = s"
| "run c (a # as) s = run c as (step c a s)"

text \<open>
  \<open>whole_writes conn inw outw ops s\<close>: in the run of \<open>ops\<close> from \<open>s\<close> through
  the wrapper of \<open>conn\<close>, \<open>inw\<close> and \<open>outw\<close>, every write that the underlying
  connection is given either is accepted whole without error or has no byte accepted,
  and every write that a sink is given is accepted whole. The inbound sink is given what
  a read returned, when that is not empty; the outbound sink is given the buffer of a
  write that the connection accepted whole without error.
\<close>

fun whole_writes :: "'b Conn \<Rightarrow> 'b Writer \<Rightarrow> 'b Writer \<Rightarrow> io_op list \<Rightarrow> 'b probe \<Rightarrow> bool" where
  "whole_writes conn inw outw [] s = True"
| "whole_writes conn inw outw (OpRead n # as) s =
     ((case Read conn n (base s) of
         ((d, e), b1) \<Rightarrow> (if d \<noteq> [] then fst (fst (inw d b1)) = length d else True))
      \<and> whole_writes conn inw outw as
          (step (TeeConn (probe_Conn conn) (probe_in inw) (probe_out outw)) (OpRead n) s))"
| "whole_writes conn inw outw (OpWrite p # as) s =
     ((case Write conn p (base s) of
         ((n, e), b1) \<Rightarrow>
            ((n = length p \<and> e = None) \<or> n = 0)
            \<and> (if n = length p \<and> e = None then fst (fst (outw p b1)) = length p else True))
      \<and> whole_writes conn inw outw as
          (step (TeeConn (probe_Conn conn) (probe_in inw) (probe_out outw)) (OpWrite p) s))"

section \<open>The server, the observer and the handler\<close>

text \<open>
  What the package is handed from outside acts on \<open>env\<close> alone: the response writer of
  the HTTP server, its \<^verbatim>\<open>Hijack\<close> and the connection that \<^verbatim>\<open>Hijack\<close> returns are
  arbitrary operations on \<open>env\<close>, run inside the state by \<open>lift\<close>.
\<close>

definition lift :: "('e \<Rightarrow> 'a \<times> 'e) \<Rightarrow> 'e world \<Rightarrow> 'a \<times> 'e world" where
  "lift f s = (case f (env s) of (a, e') \<Rightarrow> (a, s\<lparr>env := e'\<rparr>))"

definition lift_Conn :: "'e Conn \<Rightarrow> 'e world Conn" where
  "lift_Conn c =
     \<lparr>Read = (\<lambda>n. lift (Read c n)),
      Write = (\<lambda>p. lift (Write c p)),
      Close = lift (Close c),
      LocalAddr = (\<lambda>s. LocalAddr c (env s)),
      RemoteAddr = (\<lambda>s. RemoteAddr c (env s)),
      SetDeadline = (\<lambda>t. lift (SetDeadline c t)),
      SetReadDeadline = (\<lambda>t. lift (SetReadDeadline c t)),
      SetWriteDeadline = (\<lambda>t. lift (SetWriteDeadline c t))\<rparr>"

definition lift_Hijacker :: "'e Hijacker \<Rightarrow> 'e world Hijacker" where
  "lift_Hijacker hj s =
     (case hj (env s) of
        (Hijacked c buf, e') \<Rightarrow> (Hijacked (lift_Conn c) buf, s\<lparr>env := e'\<rparr>)
      | (HijackFailed c buf err, e') \<Rightarrow>
          (HijackFailed (map_option lift_Conn c) buf err, s\<lparr>env := e'\<rparr>))"

definition lift_ResponseWriter :: "'e ResponseWriter \<Rightarrow> 'e world ResponseWriter" where
  "lift_ResponseWriter w =
     \<lparr>rw_Header = (\<lambda>s. rw_Header w (env s)),
      rw_Write = (\<lambda>p. lift (rw_Write w p)),
      rw_WriteHeader = (\<lambda>code s. s\<lparr>env := rw_WriteHeader w code (env s)\<rparr>),
      rw_Hijacker = map_option lift_Hijacker (rw_Hijacker w)\<rparr>"

text \<open>
  An observer callback that does \<open>f\<close> to what the observer keeps and notes the call:
  the request and the two readers it was given.
\<close>

definition observer ::
  "(Request \<Rightarrow> PipeReader \<Rightarrow> PipeReader \<Rightarrow> 'e \<Rightarrow> 'e) \<Rightarrow> 'e OnHijacked" where
  "observer f r rIn rOut s =
     s\<lparr>env := f r rIn rOut (env s), observed := observed s @ [(r, rIn, rOut)]\<rparr>"

text \<open>
  The wrapped handler is opaque. It is taken as a strategy: the calls it makes on the
  response writer it was given, and on the connection of its last successful
  \<^verbatim>\<open>Hijack\<close>, each next call chosen from the reply to the one before. \<open>CallHijack\<close>
  is \<^verbatim>\<open>w.(http.Hijacker)\<close> followed by \<^verbatim>\<open>Hijack()\<close>. \<open>serve\<close> runs a strategy and
  returns the calls made with the final state.
\<close>

datatype call =
    CallHeader
  | CallWrite "byte list"
  | CallWriteHeader int
  | CallHijack
  | CallConnRead nat
  | CallConnWrite "byte list"
  | CallConnClose

datatype reply =
    GotHeader Header
  | Wrote nat "error option"
  | Returned
  | NotHijacker
  | HijackOK "bufio_ReadWriter option"
  | HijackErr error
  | NoConn
  | ReadGot "byte list" "error option"
  | Closed "error option"

datatype strategy = Finish | Call call "reply \<Rightarrow> strategy"

fun perform ::
  "call \<Rightarrow> 's ResponseWriter \<Rightarrow> 's Conn option \<Rightarrow> 's \<Rightarrow> reply \<times> 's Conn option \<times> 's" where
  "perform CallHeader w c s = (GotHeader (rw_Header w s), c, s)"
| "perform (CallWrite p) w c s =
     (case rw_Write w p s of ((n, e), s') \<Rightarrow> (Wrote n e, c, s'))"
| "perform (CallWriteHeader code) w c s = (Returned, c, rw_WriteHeader w code s)"
| "perform CallHijack w c s =
     (case rw_Hijacker w of
        None \<Rightarrow> (NotHijacker, c, s)
      | Some hj \<Rightarrow>
          (case hj s of
             (Hijacked conn buf, s') \<Rightarrow> (HijackOK buf, Some conn, s')
           | (HijackFailed conn buf err, s') \<Rightarrow> (HijackErr err, c, s')))"
| "perform (CallConnRead n) w c s =
     (case c of
        None \<Rightarrow> (NoConn, c, s)
      | Some conn \<Rightarrow> (case Read conn n s of ((d, e), s') \<Rightarrow> (ReadGot d e, c, s')))"
| "perform (CallConnWrite p) w c s =
     (case c of
        None \<Rightarrow> (NoConn, c, s)
      | Some conn \<Rightarrow> (case Write conn p s of ((n, e), s') \<Rightarrow> (Wrote n e, c, s')))"
| "perform CallConnClose w c s =
     (case c of
        None \<Rightarrow> (NoConn, c, s)
      | Some conn \<Rightarrow> (case Close conn s of (e, s') \<Rightarrow> (Closed e, c, s')))"

primrec serve ::
  "strategy \<Rightarrow> 's ResponseWriter \<Rightarrow> 's Conn option \<Rightarrow> 's \<Rightarrow> call list \<times> 's" where
  "serve Finish w c s = ([], s)"
| "serve (Call a k) w c s =
     (case perform a w c s of
        (rep, c', s') \<Rightarrow> (case serve (k rep) w c' s' of (tr, s'') \<Rightarrow> (a # tr, s'')))"

definition strategy_Handler :: "(Request \<Rightarrow> strategy) \<Rightarrow> 's Handler" where
  "strategy_Handler t w r s = snd (serve (t r) w None s)"

subsection \<open>Connections and sinks used as instances\<close>

text \<open>
  \<open>stub_conn\<close> is a socket whose peer has sent the bytes of the state: a read takes
  up to \<^verbatim>\<open>len(p)\<close> of them and reports \<^verbatim>\<open>io.EOF\<close> with the last ones; a write
  accepts the whole buffer. \<open>short_conn\<close> differs in its writes, which accept all but
  the last byte and report no error; the writes of \<open>timeout_conn\<close> accept one byte and
  then fail; the reads of \<open>reset_conn\<close> return the pending bytes together with an
  error. \<open>good_sink\<close> accepts every buffer, \<open>broken_sink\<close> accepts nothing and
  fails as a pipe does whose read end is closed.
\<close>

definition stub_conn :: "byte list Conn" where
  "stub_conn =
     \<lparr>Read = (\<lambda>n s. ((take n s, if length s \<le> n then Some EOF else None), drop n s)),
      Write = (\<lambda>p s. ((length p, None), s)),
      Close = (\<lambda>s. (None, [])),
      LocalAddr = (\<lambda>s. ''127.0.0.1:8080''),
      RemoteAddr = (\<lambda>s. ''127.0.0.1:50000''),
      SetDeadline = (\<lambda>t s. (None, s)),
      SetReadDeadline = (\<lambda>t s. (None, s)),
      SetWriteDeadline = (\<lambda>t s. (None, s))\<rparr>"

definition short_conn :: "byte list Conn" where
  "short_conn = stub_conn\<lparr>Write := (\<lambda>p s. ((length p - 1, None), s))\<rparr>"

definition timeout_conn :: "byte list Conn" where
  "timeout_conn = stub_conn\<lparr>Write := (\<lambda>p s. ((min 1 (length p), Some (Err ''i/o timeout'')), s))\<rparr>"

definition reset_conn :: "byte list Conn" where
  "reset_conn =
     stub_conn\<lparr>Read := (\<lambda>n s. ((take n s, Some (Err ''read: connection reset by peer'')), drop n s))\<rparr>"

definition good_sink :: "'b Writer" where
  "good_sink = (\<lambda>p b. ((length p, None), b))"

definition broken_sink :: "'b Writer" where
  "broken_sink = (\<lambda>p b. ((0, Some ErrClosedPipe), b))"

definition probe0 :: "'b \<Rightarrow> 'b probe" where
  "probe0 b = \<lparr>base = b, conn_rx = [], conn_tx = [], sink_in = [], sink_out = []\<rparr>"

text \<open>
  A server whose \<open>env\<close> is the bytes pending on the client's socket: \<open>stub_writer\<close>
  is its response writer, which can be hijacked and then hands over \<open>stub_conn\<close>;
  \<open>plain_writer\<close> is the same writer without \<^verbatim>\<open>Hijack\<close>; the \<^verbatim>\<open>Hijack\<close> of
  \<open>spent_writer\<close> fails as it does on a connection that was hijacked before.
\<close>

definition stub_hijacker :: "byte list Hijacker" where
  "stub_hijacker = (\<lambda>e. (Hijacked stub_conn (Some (ReadWriter 0)), e))"

definition spent_hijacker :: "byte list Hijacker" where
  "spent_hijacker = (\<lambda>e. (HijackFailed None None (Err ''http: connection has been hijacked''), e))"

definition plain_writer :: "byte list ResponseWriter" where
  "plain_writer =
     \<lparr>rw_Header = (\<lambda>e. []),
      rw_Write = (\<lambda>p e. ((length p, None), e)),
      rw_WriteHeader = (\<lambda>code e. e),
      rw_Hijacker = None\<rparr>"

definition stub_writer :: "byte list ResponseWriter" where
  "stub_writer = plain_writer\<lparr>rw_Hijacker := Some stub_hijacker\<rparr>"

definition spent_writer :: "byte list ResponseWriter" where
  "spent_writer = plain_writer\<lparr>rw_Hijacker := Some spent_hijacker\<rparr>"

definition world0 :: "'e \<Rightarrow> 'e world" where
  "world0 e = \<lparr>env = e, pipes = [], observed = []\<rparr>"

definition req0 :: Request where
  "req0 = \<lparr>req_Method = ''GET'', req_Host = ''echo.websocket.org'',
           req_RemoteAddr = ''127.0.0.1:50000''\<rparr>"

definition quiet :: "Request \<Rightarrow> PipeReader \<Rightarrow> PipeReader \<Rightarrow> 'e \<Rightarrow> 'e" where
  "quiet r rIn rOut e = e"

text \<open>
  A handler that answers with a status and a body and never hijacks.
\<close>

definition plain_strategy :: "Request \<Rightarrow> strategy" where
  "plain_strategy r =
     Call CallHeader (\<lambda>_. Call (CallWriteHeader 200) (\<lambda>_. Call (CallWrite [0x4F, 0x4B]) (\<lambda>_. Finish)))"

section \<open>Properties of TeeConn\<close>

lemma Read_TeeConn: "Read (TeeConn conn inw outw) = TeeReader (Read conn) inw"
  by (simp add: TeeConn_def teeConn_Conn_def teeConn_Read_def fun_eq_iff)

lemma Write_TeeConn: "Write (TeeConn conn inw outw) = MultiWriter [Write conn, outw]"
  by (simp add: TeeConn_def teeConn_Conn_def teeConn_Write_def fun_eq_iff)

lemma rest_TeeConn:
  "Close (TeeConn conn inw outw) = Close conn"
  "LocalAddr (TeeConn conn inw outw) = LocalAddr conn"
  "RemoteAddr (TeeConn conn inw outw) = RemoteAddr conn"
  "SetDeadline (TeeConn conn inw outw) = SetDeadline conn"
  "SetReadDeadline (TeeConn conn inw outw) = SetReadDeadline conn"
  "SetWriteDeadline (TeeConn conn inw outw) = SetWriteDeadline conn"
  by (simp_all add: TeeConn_def teeConn_Conn_def)

lemma Read_probe_Conn:
  "Read conn p (base s) = ((d, e), b') \<Longrightarrow>
   Read (probe_Conn conn) p s = ((d, e), s\<lparr>base := b', conn_rx := conn_rx s @ d\<rparr>)"
  by (simp add: probe_Conn_def)

lemma Write_probe_Conn:
  "Write conn p (base s) = ((n, e), b') \<Longrightarrow>
   Write (probe_Conn conn) p s = ((n, e), s\<lparr>base := b', conn_tx := conn_tx s @ take n p\<rparr>)"
  by (simp add: probe_Conn_def)

subsection \<open>Byte fidelity\<close>

lemma Read_keeps_agreement:
  assumes "case Read conn n (base s) of
             ((d, e), b1) \<Rightarrow> (if d \<noteq> [] then fst (fst (inw d b1)) = length d else True)"
      and "sink_in s = conn_rx s \<and> sink_out s = conn_tx s"
  shows "sink_in (snd (Read (TeeConn (probe_Conn conn) (probe_in inw) (probe_out outw)) n s))
           = conn_rx (snd (Read (TeeConn (probe_Conn conn) (probe_in inw) (probe_out outw)) n s))
         \<and> sink_out (snd (Read (TeeConn (probe_Conn conn) (probe_in inw) (probe_out outw)) n s))
           = conn_tx (snd (Read (TeeConn (probe_Conn conn) (probe_in inw) (probe_out outw)) n s))"
  using assms
  by (auto simp add: Read_TeeConn TeeReader_def probe_Conn_def probe_in_def
      split: prod.splits if_splits)

lemma Write_keeps_agreement:
  assumes "case Write conn p (base s) of
             ((n, e), b1) \<Rightarrow>
                ((n = length p \<and> e = None) \<or> n = 0)
                \<and> (if n = length p \<and> e = None then fst (fst (outw p b1)) = length p else True)"
      and "sink_in s = conn_rx s \<and> sink_out s = conn_tx s"
  shows "sink_in (snd (Write (TeeConn (probe_Conn conn) (probe_in inw) (probe_out outw)) p s))
           = conn_rx (snd (Write (TeeConn (probe_Conn conn) (probe_in inw) (probe_out outw)) p s))
         \<and> sink_out (snd (Write (TeeConn (probe_Conn conn) (probe_in inw) (probe_out outw)) p s))
           = conn_tx (snd (Write (TeeConn (probe_Conn conn) (probe_in inw) (probe_out outw)) p s))"
  using assms
  by (auto simp add: Write_TeeConn MultiWriter_def probe_Conn_def probe_out_def
      split: prod.splits if_splits)

text \<open>
  C1 (byte fidelity), as the code has it. Take any connection, any two sinks and any
  sequence of reads and writes through the wrapper, reads of length zero and one
  included, in whose run every write that a sink is given is accepted whole and every
  write that the underlying connection is given either is accepted whole without error
  or has no byte accepted. After it the inbound sink has received exactly the bytes that
  the connection's reads returned and the outbound sink exactly the bytes that the
  connection's writes accepted, in the same order.
\<close>

theorem byte_fidelity:
  assumes "whole_writes conn inw outw ops s"
      and "sink_in s = conn_rx s" and "sink_out s = conn_tx s"
  shows "sink_in (run (TeeConn (probe_Conn conn) (probe_in inw) (probe_out outw)) ops s)
           = conn_rx (run (TeeConn (probe_Conn conn) (probe_in inw) (probe_out outw)) ops s)
         \<and> sink_out (run (TeeConn (probe_Conn conn) (probe_in inw) (probe_out outw)) ops s)
           = conn_tx (run (TeeConn (probe_Conn conn) (probe_in inw) (probe_out outw)) ops s)"
proof -
  let ?T = "TeeConn (probe_Conn conn) (probe_in inw) (probe_out outw)"
  have "whole_writes conn inw outw ops s \<Longrightarrow>
        sink_in s = conn_rx s \<and> sink_out s = conn_tx s \<Longrightarrow>
        sink_in (run ?T ops s) = conn_rx (run ?T ops s)
        \<and> sink_out (run ?T ops s) = conn_tx (run ?T ops s)" for s
  proof (induction ops arbitrary: s)
    case Nil
    then show ?case by simp
  next
    case (Cons a as)
    have rest: "whole_writes conn inw outw as (step ?T a s)"
      using Cons.prems(1) by (cases a) simp_all
    have "sink_in (step ?T a s) = conn_rx (step ?T a s)
          \<and> sink_out (step ?T a s) = conn_tx (step ?T a s)"
    proof (cases a)
      case (OpRead n)
      with Cons.prems(1)
      have "case Read conn n (base s) of
              ((d, e), b1) \<Rightarrow> (if d \<noteq> [] then fst (fst (inw d b1)) = length d else True)"
        by simp
      from Read_keeps_agreement [where conn = conn and inw = inw and outw = outw, OF this Cons.prems(2)]
        OpRead show ?thesis by simp
    next
      case (OpWrite p)
      with Cons.prems(1)
      have "case Write conn p (base s) of
              ((n, e), b1) \<Rightarrow>
                 ((n = length p \<and> e = None) \<or> n = 0)
                 \<and> (if n = length p \<and> e = None then fst (fst (outw p b1)) = length p else True)"
        by simp
      from Write_keeps_agreement [where conn = conn and inw = inw and outw = outw, OF this Cons.prems(2)]
        OpWrite show ?thesis by simp
    qed
    with Cons.IH [OF rest] show ?case by simp
  qed
  with assms show ?thesis by simp
qed

theorem byte_fidelity_witness:
  "whole_writes stub_conn good_sink good_sink
     [OpRead 0, OpRead 1, OpWrite [0x4F, 0x4B], OpRead 2] (probe0 [0x48, 0x49])
   \<and> sink_in (run (TeeConn (probe_Conn stub_conn) (probe_in good_sink) (probe_out good_sink))
             [OpRead 0, OpRead 1, OpWrite [0x4F, 0x4B], OpRead 2] (probe0 [0x48, 0x49])) = [0x48, 0x49]
   \<and> conn_rx (run (TeeConn (probe_Conn stub_conn) (probe_in good_sink) (probe_out good_sink))
             [OpRead 0, OpRead 1, OpWrite [0x4F, 0x4B], OpRead 2] (probe0 [0x48, 0x49])) = [0x48, 0x49]
   \<and> sink_out (run (TeeConn (probe_Conn stub_conn) (probe_in good_sink) (probe_out good_sink))
             [OpRead 0, OpRead 1, OpWrite [0x4F, 0x4B], OpRead 2] (probe0 [0x48, 0x49])) = [0x4F, 0x4B]
   \<and> conn_tx (run (TeeConn (probe_Conn stub_conn) (probe_in good_sink) (probe_out good_sink))
             [OpRead 0, OpRead 1, OpWrite [0x4F, 0x4B], OpRead 2] (probe0 [0x48, 0x49])) = [0x4F, 0x4B]"
proof -
  let ?T = "TeeConn (probe_Conn stub_conn) (probe_in good_sink) (probe_out good_sink)"
  let ?ops = "[OpRead 0, OpRead 1, OpWrite [0x4F, 0x4B], OpRead 2]"
  have h: "whole_writes stub_conn good_sink good_sink ?ops (probe0 [0x48, 0x49])"
    by (simp add: Read_TeeConn TeeReader_def Write_TeeConn MultiWriter_def probe_Conn_def
        probe_in_def probe_out_def stub_conn_def good_sink_def probe0_def)
  have s: "sink_in (probe0 [0x48, 0x49 :: byte]) = conn_rx (probe0 [0x48, 0x49])"
          "sink_out (probe0 [0x48, 0x49 :: byte]) = conn_tx (probe0 [0x48, 0x49])"
    by (simp_all add: probe0_def)
  have rx: "conn_rx (run ?T ?ops (probe0 [0x48, 0x49])) = [0x48, 0x49]"
    by (simp add: Read_TeeConn TeeReader_def Write_TeeConn MultiWriter_def probe_Conn_def
        probe_in_def probe_out_def stub_conn_def good_sink_def probe0_def)
  have tx: "conn_tx (run ?T ?ops (probe0 [0x48, 0x49])) = [0x4F, 0x4B]"
    by (simp add: Read_TeeConn TeeReader_def Write_TeeConn MultiWriter_def probe_Conn_def
        probe_in_def probe_out_def stub_conn_def good_sink_def probe0_def)
  from byte_fidelity [where conn = stub_conn and inw = good_sink and outw = good_sink, OF h s]
    h rx tx
  show ?thesis by simp
qed

text \<open>
  Against C1 as stated: a write of two bytes of which the connection accepts one before it
  fails. One byte has crossed the real socket; the outbound sink has received none.
\<close>

theorem byte_fidelity_counterexample:
  "Write timeout_conn [0x4F, 0x4B] [] = ((1, Some (Err ''i/o timeout'')), [])
   \<and> conn_tx (run (TeeConn (probe_Conn timeout_conn) (probe_in good_sink) (probe_out good_sink))
             [OpWrite [0x4F, 0x4B]] (probe0 [])) = [0x4F]
   \<and> sink_out (run (TeeConn (probe_Conn timeout_conn) (probe_in good_sink) (probe_out good_sink))
             [OpWrite [0x4F, 0x4B]] (probe0 [])) = []"
  by (simp add: Write_TeeConn MultiWriter_def probe_Conn_def probe_out_def timeout_conn_def
      stub_conn_def good_sink_def probe0_def)

subsection \<open>A sink that fails\<close>

text \<open>
  C2 (sink failures), as the code has it. When the underlying operation succeeds and the
  write to the sink fails, the wrapper returns the sink's count and the sink's error as
  the result of the connection's operation: for a read that returned bytes \<open>d\<close> of
  which the inbound sink accepted \<open>k\<close> (a count within the buffer it was given, as
  \<^verbatim>\<open>io.Writer\<close> requires) before failing with \<open>e\<close>, the caller gets the count
  \<open>k\<close>, that is the bytes \<open>take k d\<close>, with \<open>e\<close>; for a write that the connection
  accepted in full and of which the outbound sink accepted \<open>m\<close> before failing with
  \<open>e'\<close>, the caller gets \<open>m\<close> with \<open>e'\<close>. The operation on the real connection has
  taken effect all the same (\<open>conn_rx\<close>, \<open>conn_tx\<close>).
\<close>

theorem sink_failure_is_returned:
  "(Read conn p (base s) = ((d, None), b1) \<and> d \<noteq> [] \<and> inw d b1 = ((k, Some e), b2)
      \<and> k \<le> length d \<longrightarrow>
      Read (TeeConn (probe_Conn conn) (probe_in inw) (probe_out outw)) p s =
        ((take k d, Some e),
         s\<lparr>base := b2, conn_rx := conn_rx s @ d, sink_in := sink_in s @ take k d\<rparr>)
      \<and> length (fst (fst (Read (TeeConn (probe_Conn conn) (probe_in inw) (probe_out outw)) p s)))
          = k)
   \<and> (Write conn q (base s) = ((length q, None), c1) \<and> outw q c1 = ((m, Some e'), c2) \<longrightarrow>
      Write (TeeConn (probe_Conn conn) (probe_in inw) (probe_out outw)) q s =
        ((m, Some e'),
         s\<lparr>base := c2, conn_tx := conn_tx s @ q, sink_out := sink_out s @ take m q\<rparr>))"
  by (auto simp add: Read_TeeConn TeeReader_def Read_probe_Conn probe_in_def
      Write_TeeConn MultiWriter_def Write_probe_Conn probe_out_def)

theorem sink_failure_is_returned_witness:
  "Read stub_conn 2 [0x48, 0x49, 0x21] = (([0x48, 0x49], None), [0x21])
   \<and> broken_sink [0x48, 0x49] [0x21::byte] = ((0, Some ErrClosedPipe), [0x21])
   \<and> Read (TeeConn (probe_Conn stub_conn) (probe_in broken_sink) (probe_out broken_sink)) 2
       (probe0 [0x48, 0x49, 0x21])
     = (([], Some ErrClosedPipe),
        \<lparr>base = [0x21], conn_rx = [0x48, 0x49], conn_tx = [], sink_in = [], sink_out = []\<rparr>)
   \<and> Write stub_conn [0x4F, 0x4B] [0x48, 0x49, 0x21] = ((2, None), [0x48, 0x49, 0x21])
   \<and> Write (TeeConn (probe_Conn stub_conn) (probe_in broken_sink) (probe_out broken_sink))
       [0x4F, 0x4B] (probe0 [0x48, 0x49, 0x21])
     = ((0, Some ErrClosedPipe),
        \<lparr>base = [0x48, 0x49, 0x21], conn_rx = [], conn_tx = [0x4F, 0x4B], sink_in = [],
         sink_out = []\<rparr>)"
proof -
  have r: "Read stub_conn 2 (base (probe0 [0x48, 0x49, 0x21])) = (([0x48, 0x49], None), [0x21])
           \<and> [0x48, 0x49 :: byte] \<noteq> []
           \<and> broken_sink [0x48, 0x49] [0x21::byte] = ((0, Some ErrClosedPipe), [0x21])
           \<and> 0 \<le> length [0x48, 0x49 :: byte]"
    by (simp add: stub_conn_def broken_sink_def probe0_def)
  have w: "Write stub_conn [0x4F, 0x4B] (base (probe0 [0x48, 0x49, 0x21]))
             = ((length [0x4F, 0x4B :: byte], None), [0x48, 0x49, 0x21])
           \<and> broken_sink [0x4F, 0x4B] [0x48, 0x49, 0x21 :: byte]
             = ((0, Some ErrClosedPipe), [0x48, 0x49, 0x21])"
    by (simp add: stub_conn_def broken_sink_def probe0_def)
  from sink_failure_is_returned [where conn = stub_conn and inw = broken_sink and outw = broken_sink
      and p = 2 and s = "probe0 [0x48, 0x49, 0x21]" and d = "[0x48, 0x49]" and ?b1.0 = "[0x21]"
      and k = 0 and e = ErrClosedPipe and ?b2.0 = "[0x21]" and q = "[0x4F, 0x4B]"
      and ?c1.0 = "[0x48, 0x49, 0x21]" and m = 0 and e' = ErrClosedPipe
      and ?c2.0 = "[0x48, 0x49, 0x21]"] r w
  show ?thesis by (simp add: probe0_def)
qed

text \<open>
  Against C2 as stated: the connection's read succeeds with two bytes and no error, the
  inbound sink fails, and the wrapper's read reports the sink's error.
\<close>

theorem sink_failure_counterexample:
  "Read stub_conn 2 [0x48, 0x49, 0x21] = (([0x48, 0x49], None), [0x21])
   \<and> broken_sink [0x48, 0x49] [0x21::byte] = ((0, Some ErrClosedPipe), [0x21])
   \<and> fst (Read (TeeConn (probe_Conn stub_conn) (probe_in broken_sink) (probe_out good_sink)) 2
        (probe0 [0x48, 0x49, 0x21])) = ([], Some ErrClosedPipe)"
  by (simp add: Read_TeeConn TeeReader_def probe_Conn_def probe_in_def stub_conn_def
      broken_sink_def probe0_def)

subsection \<open>What a read writes to the inbound sink\<close>

text \<open>
  C7 (read tees before it returns), as the code has it. When the underlying read returns
  bytes \<open>d\<close>, not none, the wrapper writes exactly \<open>d\<close> to the inbound sink in one
  call, after the connection's read and before its own return: the state in which the
  read returns is the one that the sink's write of \<open>d\<close> left. The sink's write returns
  a count \<open>k\<close> within the buffer it was given, as \<^verbatim>\<open>io.Writer\<close> requires: the sink
  has accepted \<open>take k d\<close>, and so all of \<open>d\<close> exactly when \<open>k\<close> is the length of
  \<open>d\<close>. When the sink's write reports an error the read returns the \<open>k\<close> bytes that
  the sink accepted with that error, and otherwise \<open>d\<close> with the connection's own
  result.
\<close>

theorem teeConn_Read_tees:
  assumes "Read conn p (base s) = ((d, e), b1)" and "d \<noteq> []"
      and "inw d b1 = ((k, e'), b2)" and "k \<le> length d"
  shows "snd (Read (TeeConn (probe_Conn conn) (probe_in inw) (probe_out outw)) p s)
           = s\<lparr>base := b2, conn_rx := conn_rx s @ d, sink_in := sink_in s @ take k d\<rparr>
         \<and> (k = length d \<longrightarrow>
              sink_in (snd (Read (TeeConn (probe_Conn conn) (probe_in inw) (probe_out outw)) p s))
                = sink_in s @ d)
         \<and> fst (Read (TeeConn (probe_Conn conn) (probe_in inw) (probe_out outw)) p s)
             = (if e' \<noteq> None then (take k d, e') else (d, e))
         \<and> (e' \<noteq> None \<longrightarrow>
              length (fst (fst (Read (TeeConn (probe_Conn conn) (probe_in inw) (probe_out outw)) p s)))
                = k)"
  using assms
  by (auto simp add: Read_TeeConn TeeReader_def Read_probe_Conn probe_in_def)

theorem teeConn_Read_tees_witness:
  "Read stub_conn 2 [0x48, 0x49, 0x21] = (([0x48, 0x49], None), [0x21])
   \<and> good_sink [0x48, 0x49] [0x21::byte] = ((2, None), [0x21])
   \<and> Read (TeeConn (probe_Conn stub_conn) (probe_in good_sink) (probe_out good_sink)) 2
         (probe0 [0x48, 0x49, 0x21])
     = (([0x48, 0x49], None),
        \<lparr>base = [0x21], conn_rx = [0x48, 0x49], conn_tx = [], sink_in = [0x48, 0x49],
         sink_out = []\<rparr>)"
proof -
  have r: "Read stub_conn 2 (base (probe0 [0x48, 0x49, 0x21])) = (([0x48, 0x49], None), [0x21])"
    by (simp add: stub_conn_def probe0_def)
  have n: "[0x48, 0x49 :: byte] \<noteq> []"
    by simp
  have w: "good_sink [0x48, 0x49] [0x21::byte] = ((2, None), [0x21])"
    by (simp add: good_sink_def)
  have k: "2 \<le> length [0x48, 0x49 :: byte]"
    by simp
  from teeConn_Read_tees [where inw = good_sink and outw = good_sink, OF r n w k] r w
  show ?thesis by (simp add: probe0_def prod_eq_iff)
qed

text \<open>
  Against C7 as stated: the connection's read returns two bytes and the inbound sink,
  failing as a pipe does whose read end is closed, accepts none of them. When the read
  returns, the two bytes have crossed the socket and the sink has received nothing.
\<close>

theorem teeConn_Read_tees_counterexample:
  "Read stub_conn 2 [0x48, 0x49, 0x21] = (([0x48, 0x49], None), [0x21])
   \<and> broken_sink [0x48, 0x49] [0x21::byte] = ((0, Some ErrClosedPipe), [0x21])
   \<and> Read (TeeConn (probe_Conn stub_conn) (probe_in broken_sink) (probe_out good_sink)) 2
       (probe0 [0x48, 0x49, 0x21])
     = (([], Some ErrClosedPipe),
        \<lparr>base = [0x21], conn_rx = [0x48, 0x49], conn_tx = [], sink_in = [], sink_out = []\<rparr>)"
  by (simp add: Read_TeeConn TeeReader_def probe_Conn_def probe_in_def stub_conn_def
      broken_sink_def probe0_def)

subsection \<open>The other methods, and the connection's errors\<close>

text \<open>
  C9 (passthrough), as the code has it. \<^verbatim>\<open>Close\<close>, \<^verbatim>\<open>LocalAddr\<close>,
  \<^verbatim>\<open>RemoteAddr\<close>, \<^verbatim>\<open>SetDeadline\<close>, \<^verbatim>\<open>SetReadDeadline\<close> and
  \<^verbatim>\<open>SetWriteDeadline\<close> of the wrapper are those of the underlying connection, so
  their results and errors are its own. An error of the connection's write is returned
  as it is, with the connection's count. An error of the connection's read is returned
  as it is, with the bytes read, when the read returned no bytes or the inbound sink's
  write of them reports no error. (When the read returns bytes with an error and the
  sink's write of these bytes fails, the sink's error is returned in its place: see the
  counterexample.)
\<close>

theorem teeConn_passthrough:
  "Close (TeeConn conn inw outw) = Close conn
   \<and> LocalAddr (TeeConn conn inw outw) = LocalAddr conn
   \<and> RemoteAddr (TeeConn conn inw outw) = RemoteAddr conn
   \<and> SetDeadline (TeeConn conn inw outw) = SetDeadline conn
   \<and> SetReadDeadline (TeeConn conn inw outw) = SetReadDeadline conn
   \<and> SetWriteDeadline (TeeConn conn inw outw) = SetWriteDeadline conn
   \<and> (Write conn p s = ((n, Some e), s1) \<longrightarrow>
        Write (TeeConn conn inw outw) p s = ((n, Some e), s1))
   \<and> (Read conn m s = ((d, Some e'), s2) \<and> (d = [] \<or> snd (fst (inw d s2)) = None) \<longrightarrow>
        fst (Read (TeeConn conn inw outw) m s) = (d, Some e'))"
  by (auto simp add: rest_TeeConn Read_TeeConn TeeReader_def Write_TeeConn MultiWriter_def
      split: prod.splits)

theorem teeConn_passthrough_witness:
  "Close (TeeConn stub_conn broken_sink good_sink) [0x48] = (None, [])
   \<and> RemoteAddr (TeeConn stub_conn broken_sink good_sink) [] = ''127.0.0.1:50000''
   \<and> Write (TeeConn timeout_conn good_sink good_sink) [0x4F, 0x4B] [] =
       ((1, Some (Err ''i/o timeout'')), [])
   \<and> fst (Read (TeeConn stub_conn good_sink good_sink) 2 [0x48]) = ([0x48], Some EOF)"
proof -
  have w: "Write timeout_conn [0x4F, 0x4B] [] = ((1, Some (Err ''i/o timeout'')), [])"
    by (simp add: timeout_conn_def stub_conn_def)
  have r: "Read stub_conn 2 [0x48] = (([0x48], Some EOF), [])
           \<and> ([0x48::byte] = [] \<or> snd (fst (good_sink [0x48] ([]::byte list))) = None)"
    by (simp add: stub_conn_def good_sink_def)
  have c: "Close stub_conn [0x48] = (None, [])" "RemoteAddr stub_conn [] = ''127.0.0.1:50000''"
    by (simp_all add: stub_conn_def)
  from teeConn_passthrough [where conn = stub_conn and inw = broken_sink and outw = good_sink
        and s = "[]"]
    teeConn_passthrough [where conn = timeout_conn and inw = good_sink and outw = good_sink
        and p = "[0x4F, 0x4B]" and s = "[]" and n = 1 and e = "Err ''i/o timeout''" and ?s1.0 = "[]"]
    teeConn_passthrough [where conn = stub_conn and inw = good_sink and outw = good_sink
        and m = 2 and s = "[0x48]" and d = "[0x48]" and e' = EOF and ?s2.0 = "[]"]
    w r c
  show ?thesis
    by simp
qed

text \<open>
  Against C9 as stated: the connection's read returns one byte together with an error, the
  inbound sink fails, and the wrapper's read reports the sink's error, not the
  connection's.
\<close>

theorem teeConn_passthrough_counterexample:
  "Read reset_conn 2 [0x48] = (([0x48], Some (Err ''read: connection reset by peer'')), [])
   \<and> fst (Read (TeeConn reset_conn broken_sink good_sink) 2 [0x48]) = ([], Some ErrClosedPipe)"
  by (simp add: Read_TeeConn TeeReader_def reset_conn_def stub_conn_def broken_sink_def)

subsection \<open>A short write\<close>

text \<open>
  C10. A write of a buffer \<open>p\<close> of which the underlying connection accepts only
  \<open>n < length p\<close> bytes, reporting no error: the wrapper returns \<open>n\<close> with
  \<^verbatim>\<open>io.ErrShortWrite\<close>; the outbound sink is not written to at all (its record and
  the state are those left by the connection's write), while the \<open>n\<close> bytes are on the
  real connection.
\<close>

theorem teeConn_Write_short:
  assumes "Write conn p (base s) = ((n, None), b')" and "n < length p"
  shows "Write (TeeConn (probe_Conn conn) (probe_in inw) (probe_out outw)) p s =
           ((n, Some ErrShortWrite), s\<lparr>base := b', conn_tx := conn_tx s @ take n p\<rparr>)
         \<and> sink_out (snd (Write (TeeConn (probe_Conn conn) (probe_in inw) (probe_out outw)) p s))
             = sink_out s
         \<and> conn_tx (snd (Write (TeeConn (probe_Conn conn) (probe_in inw) (probe_out outw)) p s))
             = conn_tx s @ take n p"
  using assms by (simp add: Write_TeeConn MultiWriter_def Write_probe_Conn)

theorem teeConn_Write_short_witness:
  "Write short_conn [0x4F, 0x4B] [] = ((1, None), [])
   \<and> Write (TeeConn (probe_Conn short_conn) (probe_in good_sink) (probe_out good_sink))
       [0x4F, 0x4B] (probe0 [])
     = ((1, Some ErrShortWrite),
        \<lparr>base = [], conn_rx = [], conn_tx = [0x4F], sink_in = [], sink_out = []\<rparr>)"
proof -
  have w: "Write short_conn [0x4F, 0x4B] (base (probe0 [])) = ((1, None), [])"
    by (simp add: short_conn_def stub_conn_def probe0_def)
  have n: "1 < length [0x4F, 0x4B :: byte]"
    by simp
  from teeConn_Write_short [where inw = good_sink and outw = good_sink, OF w n] w
  show ?thesis by (simp add: probe0_def)
qed

section \<open>Properties of CallbackHijacker and Sniffer\<close>

lemma Hijack_ok:
  assumes "hijacker h s = (Hijacked conn buf, s1)"
  shows "callbackHijacker_Hijack h s =
           (Hijacked
              (TeeConn conn
                 (PipeWriter_Write (PipeWriter (length (pipes s1))))
                 (PipeWriter_Write (PipeWriter (Suc (length (pipes s1))))))
              buf,
            callback h (request h)
              (PipeReader (length (pipes s1))) (PipeReader (Suc (length (pipes s1))))
              (s1\<lparr>pipes := pipes s1 @ [new_pipe, new_pipe]\<rparr>))"
  using assms by (simp add: callbackHijacker_Hijack_def io_Pipe_def)

lemma lift_Hijacker_ok:
  "hj (env s) = (Hijacked c buf, e1) \<Longrightarrow>
   lift_Hijacker hj s = (Hijacked (lift_Conn c) buf, s\<lparr>env := e1\<rparr>)"
  by (simp add: lift_Hijacker_def)

lemma lift_Hijacker_failed:
  "hj (env s) = (HijackFailed c buf err, e1) \<Longrightarrow>
   lift_Hijacker hj s = (HijackFailed (map_option lift_Conn c) buf err, s\<lparr>env := e1\<rparr>)"
  by (simp add: lift_Hijacker_def)

lemma Close_lift_Conn:
  "Close (lift_Conn c) s = (fst (Close c (env s)), s\<lparr>env := snd (Close c (env s))\<rparr>)"
  by (simp add: lift_Conn_def lift_def split: prod.splits)

lemma Read_open_pipe:
  "i < length ps \<Longrightarrow> ps ! i = new_pipe \<Longrightarrow> pipes s = ps \<Longrightarrow>
   PipeReader_Read (PipeReader i) n s = Blocks"
  by (simp add: pipe_done_def new_pipe_def)

subsection \<open>A successful Hijack\<close>

text \<open>
  C3. When the underlying \<^verbatim>\<open>Hijack\<close> succeeds with connection \<open>c\<close>, the adapter's
  \<^verbatim>\<open>Hijack\<close> allocates two pipes, which are new (their pointers are the next two
  after the pipes that existed), and calls the callback exactly once, with the request the
  adapter was made for and the read ends of these two pipes, inbound first: the state it
  returns is the callback's single application to the state that holds the two new
  pipes, and for an observer the record grows by this one call. It returns
  \<^verbatim>\<open>TeeConn\<close> of \<open>c\<close> with the write ends of the same two pipes, and the buffer
  unchanged. The call of the observer is part of the state in which the connection is
  returned, and in that state both pipes are open and have carried no byte.
\<close>

theorem Hijack_success:
  assumes "hj (env s) = (Hijacked c buf, e1)"
  shows "callbackHijacker_Hijack
           \<lparr>ResponseWriter = w, hijacker = lift_Hijacker hj, request = r, callback = cb\<rparr> s
         = (Hijacked
              (TeeConn (lift_Conn c)
                 (PipeWriter_Write (PipeWriter (length (pipes s))))
                 (PipeWriter_Write (PipeWriter (Suc (length (pipes s))))))
              buf,
            cb r (PipeReader (length (pipes s))) (PipeReader (Suc (length (pipes s))))
              (s\<lparr>env := e1, pipes := pipes s @ [new_pipe, new_pipe]\<rparr>))
         \<and> callbackHijacker_Hijack
           \<lparr>ResponseWriter = w, hijacker = lift_Hijacker hj, request = r, callback = observer f\<rparr> s
         = (Hijacked
              (TeeConn (lift_Conn c)
                 (PipeWriter_Write (PipeWriter (length (pipes s))))
                 (PipeWriter_Write (PipeWriter (Suc (length (pipes s))))))
              buf,
            s\<lparr>env := f r (PipeReader (length (pipes s))) (PipeReader (Suc (length (pipes s)))) e1,
              pipes := pipes s @ [new_pipe, new_pipe],
              observed := observed s
                 @ [(r, PipeReader (length (pipes s)), PipeReader (Suc (length (pipes s))))]\<rparr>)"
  using assms
  by (simp add: callbackHijacker_Hijack_def lift_Hijacker_def io_Pipe_def observer_def)

theorem Hijack_success_witness:
  "stub_hijacker [0x48, 0x49] = (Hijacked stub_conn (Some (ReadWriter 0)), [0x48, 0x49])
   \<and> callbackHijacker_Hijack
     \<lparr>ResponseWriter = lift_ResponseWriter stub_writer, hijacker = lift_Hijacker stub_hijacker,
      request = req0, callback = observer quiet\<rparr> (world0 [0x48, 0x49])
   = (Hijacked
        (TeeConn (lift_Conn stub_conn) (PipeWriter_Write (PipeWriter 0)) (PipeWriter_Write (PipeWriter 1)))
        (Some (ReadWriter 0)),
      \<lparr>env = [0x48, 0x49], pipes = [new_pipe, new_pipe],
       observed = [(req0, PipeReader 0, PipeReader 1)]\<rparr>)"
proof -
  have h: "stub_hijacker (env (world0 [0x48, 0x49]))
           = (Hijacked stub_conn (Some (ReadWriter 0)), [0x48, 0x49])"
    by (simp add: stub_hijacker_def world0_def)
  from Hijack_success [where hj = stub_hijacker and s = "world0 [0x48, 0x49]" and f = quiet
      and w = "lift_ResponseWriter stub_writer" and r = req0 and cb = "observer quiet", OF h] h
  show ?thesis by (simp add: world0_def quiet_def observer_def)
qed

subsection \<open>A failed Hijack\<close>

text \<open>
  C4. When the underlying \<^verbatim>\<open>Hijack\<close> returns an error, the adapter's \<^verbatim>\<open>Hijack\<close>
  returns the connection, the buffer and the error of that call as they are; the state is
  the one the underlying call left: no pipe is allocated, the connection is not wrapped,
  and the callback, whatever it is, is not called (the observer's record is unchanged).
\<close>

theorem Hijack_failure:
  assumes "hj (env s) = (HijackFailed c buf err, e1)"
  shows "callbackHijacker_Hijack
           \<lparr>ResponseWriter = w, hijacker = lift_Hijacker hj, request = r, callback = cb\<rparr> s
         = (HijackFailed (map_option lift_Conn c) buf err, s\<lparr>env := e1\<rparr>)
         \<and> callbackHijacker_Hijack
             \<lparr>ResponseWriter = w, hijacker = lift_Hijacker hj, request = r, callback = cb\<rparr> s
           = lift_Hijacker hj s
         \<and> pipes (snd (callbackHijacker_Hijack
             \<lparr>ResponseWriter = w, hijacker = lift_Hijacker hj, request = r, callback = cb\<rparr> s))
           = pipes s
         \<and> observed (snd (callbackHijacker_Hijack
             \<lparr>ResponseWriter = w, hijacker = lift_Hijacker hj, request = r, callback = cb\<rparr> s))
           = observed s"
  using assms by (simp add: callbackHijacker_Hijack_def lift_Hijacker_failed)

theorem Hijack_failure_witness:
  "spent_hijacker [0x48, 0x49]
     = (HijackFailed None None (Err ''http: connection has been hijacked''), [0x48, 0x49])
   \<and> callbackHijacker_Hijack
     \<lparr>ResponseWriter = lift_ResponseWriter spent_writer, hijacker = lift_Hijacker spent_hijacker,
      request = req0, callback = observer quiet\<rparr> (world0 [0x48, 0x49])
   = (HijackFailed None None (Err ''http: connection has been hijacked''),
      \<lparr>env = [0x48, 0x49], pipes = [], observed = []\<rparr>)"
proof -
  have h: "spent_hijacker (env (world0 [0x48, 0x49]))
           = (HijackFailed None None (Err ''http: connection has been hijacked''), [0x48, 0x49])"
    by (simp add: spent_hijacker_def world0_def)
  from Hijack_failure [where hj = spent_hijacker and s = "world0 [0x48, 0x49]"
      and cb = "observer quiet" and w = "lift_ResponseWriter spent_writer" and r = req0, OF h] h
  show ?thesis by (simp add: world0_def)
qed

subsection \<open>A response writer that cannot be hijacked\<close>

text \<open>
  C5. For a response writer that is not an \<^verbatim>\<open>http.Hijacker\<close>, \<^verbatim>\<open>CallbackHijacker\<close>
  returns the writer it was given: the result is the same value, so it is not a
  hijacker either and each of its methods is the unwrapped writer's. Nothing is wrapped,
  and the function has no effect and no error to report.
\<close>

theorem CallbackHijacker_passthrough:
  assumes "rw_Hijacker w = None"
  shows "CallbackHijacker w r cb = w \<and> rw_Hijacker (CallbackHijacker w r cb) = None"
  using assms by (simp add: CallbackHijacker_def)

theorem CallbackHijacker_passthrough_witness:
  "rw_Hijacker (lift_ResponseWriter plain_writer :: byte list world ResponseWriter) = None
   \<and> CallbackHijacker (lift_ResponseWriter plain_writer) req0 (observer quiet)
     = lift_ResponseWriter plain_writer
   \<and> rw_Hijacker (CallbackHijacker (lift_ResponseWriter plain_writer) req0 (observer quiet)
        :: byte list world ResponseWriter) = None"
proof -
  have h: "rw_Hijacker (lift_ResponseWriter plain_writer :: byte list world ResponseWriter) = None"
    by (simp add: lift_ResponseWriter_def plain_writer_def)
  from CallbackHijacker_passthrough [OF h, of req0 "observer quiet"] h show ?thesis by blast
qed

subsection \<open>A request that never hijacks\<close>

lemma serve_no_Hijack:
  assumes "\<And>p s. pipes (snd (rw_Write w p s)) = pipes s \<and> observed (snd (rw_Write w p s)) = observed s"
      and "\<And>code s. pipes (rw_WriteHeader w code s) = pipes s
                    \<and> observed (rw_WriteHeader w code s) = observed s"
  shows "CallHijack \<notin> set (fst (serve t w None s)) \<Longrightarrow>
         pipes (snd (serve t w None s)) = pipes s \<and> observed (snd (serve t w None s)) = observed s"
proof (induction t arbitrary: s)
  case Finish
  then show ?case by simp
next
  case (Call a k)
  show ?case
  proof (cases a)
    case CallHeader
    with Call.prems Call.IH [of "k (GotHeader (rw_Header w s))" s]
    show ?thesis by (simp split: prod.splits)
  next
    case (CallWrite p)
    with Call.prems Call.IH [of "k (Wrote (fst (fst (rw_Write w p s))) (snd (fst (rw_Write w p s))))"
        "snd (rw_Write w p s)"] assms(1) [of p s]
    show ?thesis by (simp split: prod.splits)
  next
    case (CallWriteHeader code)
    with Call.prems Call.IH [of "k Returned" "rw_WriteHeader w code s"] assms(2) [of code s]
    show ?thesis by (simp split: prod.splits)
  next
    case CallHijack
    with Call.prems show ?thesis by (simp split: prod.splits)
  next
    case (CallConnRead n)
    with Call.prems Call.IH [of "k NoConn" s]
    show ?thesis by (simp split: prod.splits)
  next
    case (CallConnWrite p)
    with Call.prems Call.IH [of "k NoConn" s]
    show ?thesis by (simp split: prod.splits)
  next
    case CallConnClose
    with Call.prems Call.IH [of "k NoConn" s]
    show ?thesis by (simp split: prod.splits)
  qed
qed

lemma CallbackHijacker_methods:
  "rw_Header (CallbackHijacker w r cb) = rw_Header w"
  "rw_Write (CallbackHijacker w r cb) = rw_Write w"
  "rw_WriteHeader (CallbackHijacker w r cb) = rw_WriteHeader w"
  by (simp_all add: CallbackHijacker_def callbackHijacker_ResponseWriter_def split: option.splits)

text \<open>
  C6 (no tap, no cost). A request is served through \<^verbatim>\<open>Sniffer\<close> by a handler that,
  on the response writer it is given, never calls \<^verbatim>\<open>Hijack\<close>. Then the callback,
  whatever it is, is not called (the observer's record is unchanged) and no pipe is
  allocated. What the middleware adds is the one type assertion inside
  \<^verbatim>\<open>CallbackHijacker\<close> and one level of indirection: the three methods of the writer
  that the handler is given are those of the server's writer.
\<close>

theorem no_Hijack_no_tap:
  assumes "CallHijack \<notin> set (fst (serve (t r) (CallbackHijacker (lift_ResponseWriter w) r cb) None s))"
  shows "observed (Sniffer (strategy_Handler t) cb (lift_ResponseWriter w) r s) = observed s
         \<and> pipes (Sniffer (strategy_Handler t) cb (lift_ResponseWriter w) r s) = pipes s
         \<and> rw_Header (CallbackHijacker (lift_ResponseWriter w) r cb) = rw_Header (lift_ResponseWriter w)
         \<and> rw_Write (CallbackHijacker (lift_ResponseWriter w) r cb) = rw_Write (lift_ResponseWriter w)
         \<and> rw_WriteHeader (CallbackHijacker (lift_ResponseWriter w) r cb)
             = rw_WriteHeader (lift_ResponseWriter w)"
proof -
  have "pipes (snd (serve (t r) (CallbackHijacker (lift_ResponseWriter w) r cb) None s)) = pipes s
        \<and> observed (snd (serve (t r) (CallbackHijacker (lift_ResponseWriter w) r cb) None s)) = observed s"
    by (rule serve_no_Hijack [OF _ _ assms])
       (simp_all add: CallbackHijacker_methods lift_ResponseWriter_def lift_def split: prod.splits)
  then show ?thesis
    by (simp add: Sniffer_def sniffer_ServeHTTP_def strategy_Handler_def CallbackHijacker_methods)
qed

theorem no_Hijack_no_tap_witness:
  "fst (serve (plain_strategy req0)
          (CallbackHijacker (lift_ResponseWriter stub_writer) req0 (observer quiet)) None
          (world0 [0x48, 0x49]))
     = [CallHeader, CallWriteHeader 200, CallWrite [0x4F, 0x4B]]
   \<and> observed (Sniffer (strategy_Handler plain_strategy) (observer quiet)
        (lift_ResponseWriter stub_writer) req0 (world0 [0x48, 0x49])) = []
   \<and> pipes (Sniffer (strategy_Handler plain_strategy) (observer quiet)
        (lift_ResponseWriter stub_writer) req0 (world0 [0x48, 0x49])) = []"
proof -
  have tr: "fst (serve (plain_strategy req0)
              (CallbackHijacker (lift_ResponseWriter stub_writer) req0 (observer quiet)) None
              (world0 [0x48, 0x49]))
            = [CallHeader, CallWriteHeader 200, CallWrite [0x4F, 0x4B]]"
    by (simp add: plain_strategy_def CallbackHijacker_methods lift_ResponseWriter_def lift_def
        stub_writer_def plain_writer_def split: prod.splits)
  have h: "CallHijack \<notin> set (fst (serve (plain_strategy req0)
              (CallbackHijacker (lift_ResponseWriter stub_writer) req0 (observer quiet)) None
              (world0 [0x48, 0x49])))"
    by (simp add: tr)
  from no_Hijack_no_tap [where t = plain_strategy and w = stub_writer and cb = "observer quiet",
      OF h] tr
  show ?thesis by (simp add: world0_def)
qed

lemma PipeWriter_Close_ends_stream:
  "PipeReader_Read (PipeReader 0) 1024
     (snd (PipeWriter_Close (PipeWriter 0)
        \<lparr>env = ([]::byte list), pipes = [new_pipe, new_pipe], observed = []\<rparr>))
   = Returns ([], Some EOF)"
  by (simp add: pipe_done_def readCloseError_def new_pipe_def)

subsection \<open>Closing the wrapped connection\<close>

text \<open>
  On a connection that is dead, a read gets no bytes and a write is refused: neither
  reaches a sink.
\<close>

lemma dead_connection_feeds_no_sink:
  "Read conn n s = (([], e), s1) \<Longrightarrow> Read (TeeConn conn inw outw) n s = (([], e), s1)"
  "Write conn p s = ((k, Some e'), s2) \<Longrightarrow> Write (TeeConn conn inw outw) p s = ((k, Some e'), s2)"
  by (simp_all add: Read_TeeConn TeeReader_def Write_TeeConn MultiWriter_def)

text \<open>
  Neither the real connection nor a write to a pipe closes a pipe or allocates one; so no
  read or write through the wrapped connection does.
\<close>

lemma lift_keeps_pipes:
  "pipes (snd (lift f s)) = pipes s"
  by (simp add: lift_def split: prod.splits)

lemma PipeWriter_Write_keeps_pipes:
  "length (pipes (snd (PipeWriter_Write w b s))) = length (pipes s)"
  "pipe_done (pipes (snd (PipeWriter_Write w b s)) ! j) = pipe_done (pipes s ! j)"
  by (cases w; simp add: nth_list_update pipe_done_def)+

lemma TeeReader_keeps:
  assumes "\<And>n s. Q (snd (r n s)) = Q s" and "\<And>b s. Q (snd (w b s)) = Q s"
  shows "Q (snd (TeeReader r w n s)) = Q s"
proof -
  obtain d e s1 where r: "r n s = ((d, e), s1)"
    by (metis prod.exhaust)
  obtain k e' s2 where w: "w d s1 = ((k, e'), s2)"
    by (metis prod.exhaust)
  have "Q s1 = Q s"
    using assms(1) [of n s] r by simp
  moreover have "Q s2 = Q s1"
    using assms(2) [of d s1] w by simp
  ultimately show ?thesis
    by (simp add: TeeReader_def r w)
qed

lemma MultiWriter_keeps:
  assumes "\<And>b s. Q (snd (w1 b s)) = Q s" and "\<And>b s. Q (snd (w2 b s)) = Q s"
  shows "Q (snd (MultiWriter [w1, w2] p s)) = Q s"
proof -
  obtain n e s1 where a: "w1 p s = ((n, e), s1)"
    by (metis prod.exhaust)
  obtain k e' s2 where b: "w2 p s1 = ((k, e'), s2)"
    by (metis prod.exhaust)
  have "Q s1 = Q s"
    using assms(1) [of p s] a by simp
  moreover have "Q s2 = Q s1"
    using assms(2) [of p s1] b by simp
  ultimately show ?thesis
    by (simp add: MultiWriter_def a b)
qed

lemma step_keeps_pipes:
  "length (pipes (step (TeeConn (lift_Conn c) (PipeWriter_Write wi) (PipeWriter_Write wo)) a s))
     = length (pipes s)
   \<and> pipe_done (pipes (step (TeeConn (lift_Conn c) (PipeWriter_Write wi) (PipeWriter_Write wo)) a s) ! j)
     = pipe_done (pipes s ! j)"
proof (cases a)
  case (OpRead n)
  have "(\<lambda>s. (length (pipes s), pipe_done (pipes s ! j)))
          (snd (TeeReader (Read (lift_Conn c)) (PipeWriter_Write wi) n s))
        = (\<lambda>s. (length (pipes s), pipe_done (pipes s ! j))) s"
    by (rule TeeReader_keeps)
       (simp_all add: lift_Conn_def lift_keeps_pipes PipeWriter_Write_keeps_pipes)
  then show ?thesis
    by (simp add: OpRead Read_TeeConn)
next
  case (OpWrite p)
  have "(\<lambda>s. (length (pipes s), pipe_done (pipes s ! j)))
          (snd (MultiWriter [Write (lift_Conn c), PipeWriter_Write wo] p s))
        = (\<lambda>s. (length (pipes s), pipe_done (pipes s ! j))) s"
    by (rule MultiWriter_keeps)
       (simp_all add: lift_Conn_def lift_keeps_pipes PipeWriter_Write_keeps_pipes)
  then show ?thesis
    by (simp add: OpWrite Write_TeeConn)
qed

lemma run_keeps_pipes:
  "length (pipes (run (TeeConn (lift_Conn c) (PipeWriter_Write wi) (PipeWriter_Write wo)) ops s))
     = length (pipes s)
   \<and> pipe_done (pipes (run (TeeConn (lift_Conn c) (PipeWriter_Write wi) (PipeWriter_Write wo)) ops s) ! j)
     = pipe_done (pipes s ! j)"
proof (induction ops arbitrary: s)
  case Nil
  show ?case by simp
next
  case (Cons a as)
  show ?case
    using Cons.IH [of "step (TeeConn (lift_Conn c) (PipeWriter_Write wi) (PipeWriter_Write wo)) a s"]
      step_keeps_pipes [of c wi wo a s j]
    by simp
qed

text \<open>
  C8 (what closing does for the pipe consumers), as the code has it. A session is opened
  by a successful \<^verbatim>\<open>Hijack\<close> through the adapter, any sequence of reads and writes
  is made through the connection it returned, and that connection is closed.
  \<^verbatim>\<open>Close\<close> is the underlying connection's \<^verbatim>\<open>Close\<close> and nothing else: its result
  is that call's result and it leaves every pipe as it was. The two pipes of the session
  are still there and still open, as they have been since they were made: no end of
  them has been closed. A read on either read end issued after the close path has run
  neither returns end-of-stream nor an error: it blocks, waiting for a writer.
\<close>

theorem Close_leaves_pipes_open:
  assumes "hj (env s) = (Hijacked c buf, e1)"
      and "callbackHijacker_Hijack
             \<lparr>ResponseWriter = w, hijacker = lift_Hijacker hj, request = r, callback = observer f\<rparr> s
           = (Hijacked tee buf', s1)"
      and "run tee ops s1 = s2"
      and "Close tee s2 = (err, s3)"
  shows "pipes s3 = pipes s2
         \<and> (err, env s3) = Close c (env s2)
         \<and> length (pipes s3) = length (pipes s) + 2
         \<and> \<not> pipe_done (pipes s3 ! length (pipes s))
         \<and> \<not> pipe_done (pipes s3 ! Suc (length (pipes s)))
         \<and> PipeReader_Read (PipeReader (length (pipes s))) n s3 = Blocks
         \<and> PipeReader_Read (PipeReader (Suc (length (pipes s)))) n s3 = Blocks"
proof -
  let ?h = "\<lparr>ResponseWriter = w, hijacker = lift_Hijacker hj, request = r, callback = observer f\<rparr>"
  let ?i = "length (pipes s)"
  have "hijacker ?h s = (Hijacked (lift_Conn c) buf, s\<lparr>env := e1\<rparr>)"
    using assms(1) by (simp add: lift_Hijacker_ok)
  from Hijack_ok [OF this] assms(2)
  have tee: "tee = TeeConn (lift_Conn c)
                 (PipeWriter_Write (PipeWriter ?i)) (PipeWriter_Write (PipeWriter (Suc ?i)))"
    and s1: "pipes s1 = pipes s @ [new_pipe, new_pipe]"
    by (simp_all add: observer_def)
  have open1: "\<not> pipe_done (pipes s1 ! ?i)" "\<not> pipe_done (pipes s1 ! Suc ?i)"
    by (simp_all add: s1 nth_append pipe_done_def new_pipe_def)
  have len2: "length (pipes s2) = ?i + 2"
    and open2: "\<not> pipe_done (pipes s2 ! ?i)" "\<not> pipe_done (pipes s2 ! Suc ?i)"
    using run_keeps_pipes [of c "PipeWriter ?i" "PipeWriter (Suc ?i)" ops s1] open1 s1 assms(3)
    by (simp_all add: tee)
  from assms(4) have s3: "pipes s3 = pipes s2" and e: "(err, env s3) = Close c (env s2)"
    by (auto simp add: tee rest_TeeConn Close_lift_Conn)
  have "PipeReader_Read (PipeReader ?i) n s3 = Blocks"
    using len2 open2 by (simp add: s3)
  moreover have "PipeReader_Read (PipeReader (Suc ?i)) n s3 = Blocks"
    using len2 open2 by (simp add: s3)
  ultimately show ?thesis using s3 e len2 open2 by simp
qed

theorem Close_leaves_pipes_open_witness:
  "run (TeeConn (lift_Conn stub_conn) (PipeWriter_Write (PipeWriter 0)) (PipeWriter_Write (PipeWriter 1)))
     [OpRead 2, OpWrite [0x4F, 0x4B]]
     \<lparr>env = [0x48, 0x49], pipes = [new_pipe, new_pipe], observed = [(req0, PipeReader 0, PipeReader 1)]\<rparr>
   = \<lparr>env = [],
      pipes = [\<lparr>taken = [0x48, 0x49], rerr = None, werr = None\<rparr>,
               \<lparr>taken = [0x4F, 0x4B], rerr = None, werr = None\<rparr>],
      observed = [(req0, PipeReader 0, PipeReader 1)]\<rparr>
   \<and> Close (TeeConn (lift_Conn stub_conn) (PipeWriter_Write (PipeWriter 0)) (PipeWriter_Write (PipeWriter 1)))
       \<lparr>env = [],
        pipes = [\<lparr>taken = [0x48, 0x49], rerr = None, werr = None\<rparr>,
                 \<lparr>taken = [0x4F, 0x4B], rerr = None, werr = None\<rparr>],
        observed = [(req0, PipeReader 0, PipeReader 1)]\<rparr>
     = (None,
        \<lparr>env = [],
         pipes = [\<lparr>taken = [0x48, 0x49], rerr = None, werr = None\<rparr>,
                  \<lparr>taken = [0x4F, 0x4B], rerr = None, werr = None\<rparr>],
         observed = [(req0, PipeReader 0, PipeReader 1)]\<rparr>)
   \<and> PipeReader_Read (PipeReader 0) 1024
       \<lparr>env = ([]::byte list),
        pipes = [\<lparr>taken = [0x48, 0x49], rerr = None, werr = None\<rparr>,
                 \<lparr>taken = [0x4F, 0x4B], rerr = None, werr = None\<rparr>],
        observed = [(req0, PipeReader 0, PipeReader 1)]\<rparr>
     = Blocks
   \<and> PipeReader_Read (PipeReader 1) 1024
       \<lparr>env = ([]::byte list),
        pipes = [\<lparr>taken = [0x48, 0x49], rerr = None, werr = None\<rparr>,
                 \<lparr>taken = [0x4F, 0x4B], rerr = None, werr = None\<rparr>],
        observed = [(req0, PipeReader 0, PipeReader 1)]\<rparr>
     = Blocks"
proof -
  let ?s1 = "\<lparr>env = [0x48, 0x49 :: byte], pipes = [new_pipe, new_pipe],
              observed = [(req0, PipeReader 0, PipeReader 1)]\<rparr>"
  let ?s2 = "\<lparr>env = ([] :: byte list),
              pipes = [\<lparr>taken = [0x48, 0x49], rerr = None, werr = None\<rparr>,
                       \<lparr>taken = [0x4F, 0x4B], rerr = None, werr = None\<rparr>],
              observed = [(req0, PipeReader 0, PipeReader 1)]\<rparr>"
  let ?tee = "TeeConn (lift_Conn stub_conn) (PipeWriter_Write (PipeWriter 0))
                (PipeWriter_Write (PipeWriter 1)) :: byte list world Conn"
  have a: "stub_hijacker (env (world0 [0x48, 0x49]))
           = (Hijacked stub_conn (Some (ReadWriter 0)), [0x48, 0x49])"
    by (simp add: stub_hijacker_def world0_def)
  have b: "callbackHijacker_Hijack
             \<lparr>ResponseWriter = lift_ResponseWriter stub_writer, hijacker = lift_Hijacker stub_hijacker,
              request = req0, callback = observer quiet\<rparr> (world0 [0x48, 0x49])
           = (Hijacked ?tee (Some (ReadWriter 0)), ?s1)"
    by (simp add: callbackHijacker_Hijack_def lift_Hijacker_def stub_hijacker_def io_Pipe_def
        observer_def quiet_def world0_def)
  have t: "run ?tee [OpRead 2, OpWrite [0x4F, 0x4B]] ?s1 = ?s2"
    by (simp add: Read_TeeConn Write_TeeConn TeeReader_def MultiWriter_def lift_Conn_def lift_def
        stub_conn_def pipe_done_def new_pipe_def)
  have c: "Close ?tee ?s2 = (None, ?s2)"
    by (simp add: rest_TeeConn lift_Conn_def lift_def stub_conn_def)
  from Close_leaves_pipes_open [where hj = stub_hijacker and s = "world0 [0x48, 0x49]" and f = quiet
      and w = "lift_ResponseWriter stub_writer" and r = req0 and n = 1024, OF a b t c] t c
  show ?thesis by (simp add: world0_def)
qed

text \<open>
  Against C8 as stated: a session is opened by a successful \<^verbatim>\<open>Hijack\<close>, the wrapped
  connection is closed, and a read on either pipe's read end in the state that the close
  left does not end the stream.
\<close>

theorem Close_counterexample:
  "callbackHijacker_Hijack
     \<lparr>ResponseWriter = lift_ResponseWriter stub_writer, hijacker = lift_Hijacker stub_hijacker,
      request = req0, callback = observer quiet\<rparr> (world0 [0x48, 0x49])
   = (Hijacked
        (TeeConn (lift_Conn stub_conn) (PipeWriter_Write (PipeWriter 0)) (PipeWriter_Write (PipeWriter 1)))
        (Some (ReadWriter 0)),
      \<lparr>env = [0x48, 0x49], pipes = [new_pipe, new_pipe],
       observed = [(req0, PipeReader 0, PipeReader 1)]\<rparr>)
   \<and> Close (TeeConn (lift_Conn stub_conn) (PipeWriter_Write (PipeWriter 0)) (PipeWriter_Write (PipeWriter 1)))
       \<lparr>env = [0x48, 0x49], pipes = [new_pipe, new_pipe], observed = [(req0, PipeReader 0, PipeReader 1)]\<rparr>
     = (None, \<lparr>env = [], pipes = [new_pipe, new_pipe], observed = [(req0, PipeReader 0, PipeReader 1)]\<rparr>)
   \<and> \<not> ends_stream (PipeReader_Read (PipeReader 0) 1024
         \<lparr>env = ([]::byte list), pipes = [new_pipe, new_pipe], observed = [(req0, PipeReader 0, PipeReader 1)]\<rparr>)
   \<and> \<not> ends_stream (PipeReader_Read (PipeReader 1) 1024
         \<lparr>env = ([]::byte list), pipes = [new_pipe, new_pipe], observed = [(req0, PipeReader 0, PipeReader 1)]\<rparr>)"
  by (simp add: callbackHijacker_Hijack_def lift_Hijacker_def stub_hijacker_def io_Pipe_def
      observer_def quiet_def world0_def rest_TeeConn lift_Conn_def lift_def stub_conn_def
      pipe_done_def new_pipe_def)

end
